theory Spec2Isabelle
  imports Main "HOL-Library.Sublist"
begin

section \<open>JavaScript strings\<close>

text \<open>
  A JavaScript string is a sequence of UTF-16 code units. A code unit is modelled as a
  natural number, so that every string the server can receive is covered (the theorems
  hold for every list of numbers, in particular for those below 65536). \<open>js\<close> turns
  an ASCII literal of the source into its code units.
\<close>

type_synonym jsstring = "nat list"

definition js :: "string \<Rightarrow> jsstring" where
  "js s = map of_char s"

text \<open>\<open>String.prototype.trim\<close> removes WhiteSpace and LineTerminator code units.\<close>

definition is_js_whitespace :: "nat \<Rightarrow> bool" where
  "is_js_whitespace c \<longleftrightarrow>
     c = 9 \<or> c = 10 \<or> c = 11 \<or> c = 12 \<or> c = 13 \<or> c = 32 \<or> c = 160 \<or> c = 5760 \<or>
     (8192 \<le> c \<and> c \<le> 8202) \<or> c = 8232 \<or> c = 8233 \<or> c = 8239 \<or> c = 8287 \<or>
     c = 12288 \<or> c = 65279"

definition js_trim :: "jsstring \<Rightarrow> jsstring" where
  "js_trim s = rev (dropWhile is_js_whitespace (rev (dropWhile is_js_whitespace s)))"

text \<open>\<open>s.indexOf(needle)\<close>: the index of the first occurrence, or \<open>-1\<close>.\<close>

fun indexOf :: "jsstring \<Rightarrow> jsstring \<Rightarrow> int" where
  "indexOf [] needle = (if needle = [] then 0 else - 1)"
| "indexOf (c # cs) needle =
     (if prefix needle (c # cs) then 0
      else (let r = indexOf cs needle in if r = - 1 then - 1 else r + 1))"

text \<open>
  \<open>s.slice(start, end)\<close>: a negative argument counts from the end, both are clamped to
  the string, and an empty string results when the start is not before the end.
\<close>

definition js_slice :: "jsstring \<Rightarrow> int \<Rightarrow> int \<Rightarrow> jsstring" where
  "js_slice s start end =
     (let len = int (length s);
          from = (if start < 0 then max (len + start) 0 else min start len);
          to = (if end < 0 then max (len + end) 0 else min end len)
      in take (nat (to - from)) (drop (nat from) s))"

definition js_slice_from :: "jsstring \<Rightarrow> int \<Rightarrow> jsstring" where
  "js_slice_from s start = js_slice s start (int (length s))"

text \<open>
  \<open>s.substring(start, end)\<close>: both arguments are clamped to \<open>0..length\<close> and swapped
  when the start is behind the end.
\<close>

definition js_substring :: "jsstring \<Rightarrow> int \<Rightarrow> int \<Rightarrow> jsstring" where
  "js_substring s start end =
     (let len = int (length s);
          fs = min (max start 0) len;
          fe = min (max end 0) len;
          from = min fs fe;
          to = max fs fe
      in take (nat (to - from)) (drop (nat from) s))"

definition js_substring_from :: "jsstring \<Rightarrow> int \<Rightarrow> jsstring" where
  "js_substring_from s start = js_substring s start (int (length s))"

text \<open>
  \<open>s.replace(/pat/g, rep)\<close> for a regular expression that is a plain literal: every
  occurrence, scanning from the left, without overlaps.
\<close>

function replace_all :: "jsstring \<Rightarrow> jsstring \<Rightarrow> jsstring \<Rightarrow> jsstring" where
  "replace_all pat rep [] = []"
| "replace_all pat rep (c # cs) =
     (if pat \<noteq> [] \<and> prefix pat (c # cs)
      then rep @ replace_all pat rep (drop (length pat) (c # cs))
      else c # replace_all pat rep cs)"
  by pat_completeness auto
termination
  by (relation "measure (\<lambda>(pat, rep, s). length s)") auto

text \<open>
  \<open>s.replace(pat, rep)\<close> with a string pattern replaces the first occurrence only
  (the replacement strings of the source hold no \<open>$\<close> pattern).
\<close>

fun replace_first :: "jsstring \<Rightarrow> jsstring \<Rightarrow> jsstring \<Rightarrow> jsstring" where
  "replace_first pat rep [] = (if pat = [] then rep else [])"
| "replace_first pat rep (c # cs) =
     (if prefix pat (c # cs) then rep @ drop (length pat) (c # cs)
      else c # replace_first pat rep cs)"

text \<open>The two cleaning steps \<open>.replace(/^[\n\r]+/, "")\<close> and \<open>.replace(/[\n\r]+$/, "")\<close>.\<close>

definition is_newline :: "nat \<Rightarrow> bool" where
  "is_newline c \<longleftrightarrow> c = 10 \<or> c = 13"

definition strip_leading_newlines :: "jsstring \<Rightarrow> jsstring" where
  "strip_leading_newlines s = dropWhile is_newline s"

definition strip_trailing_newlines :: "jsstring \<Rightarrow> jsstring" where
  "strip_trailing_newlines s = rev (dropWhile is_newline (rev s))"

section \<open>JSON values and \<open>JSON.parse\<close>\<close>

text \<open>
  A number is kept as the exact decimal it was written as: \<open>JNumber neg m e\<close> is
  \<open>m * 10 ^ e\<close>, negated when \<open>neg\<close>. An object keeps its members in source order.
\<close>

datatype json =
    JNull
  | JBool bool
  | JNumber bool nat int
  | JString jsstring
  | JArray "json list"
  | JObject "(jsstring \<times> json) list"

datatype js_error = SyntaxError | TypeError

datatype token =
    TLBrace | TRBrace | TLBracket | TRBracket | TColon | TComma
  | TStr jsstring
  | TAtom json

definition is_json_ws :: "nat \<Rightarrow> bool" where
  "is_json_ws c \<longleftrightarrow> c = 32 \<or> c = 9 \<or> c = 10 \<or> c = 13"

definition is_digit :: "nat \<Rightarrow> bool" where
  "is_digit c \<longleftrightarrow> 48 \<le> c \<and> c \<le> 57"

definition is_hex :: "nat \<Rightarrow> bool" where
  "is_hex c \<longleftrightarrow> (48 \<le> c \<and> c \<le> 57) \<or> (97 \<le> c \<and> c \<le> 102) \<or> (65 \<le> c \<and> c \<le> 70)"

definition hex_value :: "nat \<Rightarrow> nat" where
  "hex_value c = (if c \<le> 57 then c - 48 else if 97 \<le> c then c - 87 else c - 55)"

definition simple_escape :: "nat \<Rightarrow> nat option" where
  "simple_escape c =
     (if c = 34 then Some 34 else if c = 92 then Some 92 else if c = 47 then Some 47
      else if c = 98 then Some 8 else if c = 102 then Some 12 else if c = 110 then Some 10
      else if c = 114 then Some 13 else if c = 116 then Some 9 else None)"

text \<open>
  The characters of a string after its opening quote: up to the closing quote, with the
  escapes decoded; \<open>None\<close> when the string is not closed, holds a raw control
  character or a bad escape. The second argument collects the decoded code units in reverse.
\<close>

fun lex_string :: "jsstring \<Rightarrow> jsstring \<Rightarrow> (jsstring \<times> jsstring) option" where
  "lex_string [] acc = None"
| "lex_string [c] acc = (if c = 34 then Some (rev acc, []) else None)"
| "lex_string (c # e # cs) acc =
     (if c = 34 then Some (rev acc, e # cs)
      else if c = 92 then
        (case simple_escape e of
           Some d \<Rightarrow> lex_string cs (d # acc)
         | None \<Rightarrow>
             (if e = 117 then
                (case cs of
                   h1 # h2 # h3 # h4 # rest \<Rightarrow>
                     (if is_hex h1 \<and> is_hex h2 \<and> is_hex h3 \<and> is_hex h4
                      then lex_string rest
                             ((4096 * hex_value h1 + 256 * hex_value h2 +
                               16 * hex_value h3 + hex_value h4) # acc)
                      else None)
                 | _ \<Rightarrow> None)
              else None))
      else if c < 32 then None
      else lex_string (e # cs) (c # acc))"

fun digits_value :: "nat \<Rightarrow> jsstring \<Rightarrow> nat" where
  "digits_value acc [] = acc"
| "digits_value acc (d # ds) = digits_value (10 * acc + (d - 48)) ds"

text \<open>
  A number, by the JSON grammar: an optional minus, an integer part without leading
  zeros, an optional fraction and an optional exponent.
\<close>

definition lex_exponent :: "jsstring \<Rightarrow> (int \<times> jsstring) option" where
  "lex_exponent s =
     (case s of
        [] \<Rightarrow> Some (0, [])
      | c # r \<Rightarrow>
          (if c = 101 \<or> c = 69 then
             (let neg = (case r of [] \<Rightarrow> False | g # _ \<Rightarrow> g = 45);
                  r' = (case r of [] \<Rightarrow> [] | g # t \<Rightarrow> if g = 43 \<or> g = 45 then t else r);
                  es = takeWhile is_digit r'
              in if es = [] then None
                 else Some ((if neg then - int (digits_value 0 es) else int (digits_value 0 es)),
                            dropWhile is_digit r'))
           else Some (0, s)))"

definition lex_fraction :: "jsstring \<Rightarrow> (jsstring \<times> jsstring) option" where
  "lex_fraction s =
     (case s of
        [] \<Rightarrow> Some ([], [])
      | c # r \<Rightarrow>
          (if c = 46 then
             (let fs = takeWhile is_digit r
              in if fs = [] then None else Some (fs, dropWhile is_digit r))
           else Some ([], s)))"

definition lex_number :: "jsstring \<Rightarrow> (json \<times> jsstring) option" where
  "lex_number s =
     (let neg = (case s of [] \<Rightarrow> False | c # _ \<Rightarrow> c = 45);
          s1 = (if neg then tl s else s);
          ds = takeWhile is_digit s1
      in if ds = [] \<or> (1 < length ds \<and> hd ds = 48) then None
         else
           (case lex_fraction (dropWhile is_digit s1) of
              None \<Rightarrow> None
            | Some (fs, s2) \<Rightarrow>
                (case lex_exponent s2 of
                   None \<Rightarrow> None
                 | Some (ex, s3) \<Rightarrow>
                     Some (JNumber neg (digits_value 0 (ds @ fs)) (ex - int (length fs)), s3))))"

text \<open>One token at the head of a string that does not start with JSON white space.\<close>

definition lex_token :: "jsstring \<Rightarrow> (token \<times> jsstring) option" where
  "lex_token s =
     (case s of
        [] \<Rightarrow> None
      | c # cs \<Rightarrow>
          (if c = 123 then Some (TLBrace, cs)
           else if c = 125 then Some (TRBrace, cs)
           else if c = 91 then Some (TLBracket, cs)
           else if c = 93 then Some (TRBracket, cs)
           else if c = 58 then Some (TColon, cs)
           else if c = 44 then Some (TComma, cs)
           else if c = 34 then
             (case lex_string cs [] of
                None \<Rightarrow> None
              | Some (str, rest) \<Rightarrow> Some (TStr str, rest))
           else if c = 45 \<or> is_digit c then
             (case lex_number s of
                None \<Rightarrow> None
              | Some (n, rest) \<Rightarrow> Some (TAtom n, rest))
           else if prefix (js ''true'') s then Some (TAtom (JBool True), drop 4 s)
           else if prefix (js ''false'') s then Some (TAtom (JBool False), drop 5 s)
           else if prefix (js ''null'') s then Some (TAtom JNull, drop 4 s)
           else None))"

text \<open>Every token consumes at least one code unit, which is why the lexer terminates.\<close>

lemma lex_string_shorter:
  "lex_string cs acc = Some (str, rest) \<Longrightarrow> length rest < length cs"
proof (induction "length cs" arbitrary: cs acc rule: less_induct)
  case less
  have IH: "\<And>xs a. length xs < length cs \<Longrightarrow> lex_string xs a = Some (str, rest)
              \<Longrightarrow> length rest < length xs"
    using less.hyps by blast
  consider "cs = []" | c where "cs = [c]" | c e cs' where "cs = c # e # cs'"
    by (cases cs; cases "tl cs") auto
  then show ?case
  proof cases
    case 1
    with less.prems show ?thesis by simp
  next
    case 2
    with less.prems show ?thesis by (simp split: if_splits)
  next
    case 3
    show ?thesis
    proof (cases "c = 34")
      case True
      with 3 less.prems show ?thesis by simp
    next
      case notq: False
      show ?thesis
      proof (cases "c = 92")
        case False
        with notq 3 less.prems have "lex_string (e # cs') (c # acc) = Some (str, rest)"
          by (simp split: if_splits)
        from IH [OF _ this] 3 show ?thesis by simp
      next
        case True
        show ?thesis
        proof (cases "simple_escape e")
          case (Some d)
          with True 3 less.prems have "lex_string cs' (d # acc) = Some (str, rest)"
            by simp
          from IH [OF _ this] 3 show ?thesis by simp
        next
          case None
          with True 3 less.prems obtain h1 h2 h3 h4 r v where
            cs': "cs' = h1 # h2 # h3 # h4 # r" and
            r: "lex_string r (v # acc) = Some (str, rest)"
            by (simp split: if_splits list.splits)
          from IH [OF _ r] 3 cs' show ?thesis by simp
        qed
      qed
    qed
  qed
qed

lemma lex_fraction_shorter:
  "lex_fraction s = Some (fs, rest) \<Longrightarrow> length rest \<le> length s"
  by (auto simp: lex_fraction_def Let_def split: list.splits if_splits
           intro: le_trans [OF length_dropWhile_le])

lemma lex_exponent_shorter:
  "lex_exponent s = Some (ex, rest) \<Longrightarrow> length rest \<le> length s"
  by (auto simp: lex_exponent_def Let_def split: list.splits if_splits
           intro: le_trans [OF length_dropWhile_le] le_SucI)

lemma dropWhile_shorter:
  "takeWhile P xs \<noteq> [] \<Longrightarrow> length (dropWhile P xs) < length xs"
  by (cases xs) (auto split: if_splits intro: le_imp_less_Suc length_dropWhile_le)

lemma lex_number_shorter:
  assumes "lex_number s = Some (n, rest)"
  shows "length rest < length s"
proof -
  define s1 where "s1 = (if (case s of [] \<Rightarrow> False | c # _ \<Rightarrow> c = 45) then tl s else s)"
  from assms have ne: "takeWhile is_digit s1 \<noteq> []"
    by (auto simp: lex_number_def Let_def s1_def split: if_splits)
  from assms obtain fs s2 ex where
    f: "lex_fraction (dropWhile is_digit s1) = Some (fs, s2)" and
    e: "lex_exponent s2 = Some (ex, rest)"
    by (auto simp: lex_number_def Let_def s1_def split: if_splits option.splits)
  have "length rest \<le> length s2" using e by (rule lex_exponent_shorter)
  also have "\<dots> \<le> length (dropWhile is_digit s1)" using f by (rule lex_fraction_shorter)
  also have "\<dots> < length s1" using ne by (rule dropWhile_shorter)
  also have "\<dots> \<le> length s" by (simp add: s1_def)
  finally show ?thesis .
qed

lemma lex_token_shorter:
  "lex_token s = Some (t, rest) \<Longrightarrow> length rest < length s"
  by (auto simp: lex_token_def js_def split: list.splits if_splits option.splits
           dest: lex_string_shorter lex_number_shorter)

text \<open>The tokens of a whole text; JSON white space between tokens is skipped.\<close>

function lex :: "jsstring \<Rightarrow> token list option" where
  "lex [] = Some []"
| "lex (c # cs) =
     (if is_json_ws c then lex cs
      else (case lex_token (c # cs) of
              None \<Rightarrow> None
            | Some (t, rest) \<Rightarrow>
                (case lex rest of None \<Rightarrow> None | Some ts \<Rightarrow> Some (t # ts))))"
  by pat_completeness auto
termination
  by (relation "measure length") (auto dest: lex_token_shorter)

text \<open>
  The parser is a pushdown automaton over the tokens: a stack of the containers that are
  still open, and what the grammar allows next.
\<close>

datatype frame =
    FArray "json list"
  | FObject "(jsstring \<times> json) list"
  | FMember "(jsstring \<times> json) list" jsstring

datatype mode =
    MValue | MValueOrClose | MKeyOrClose | MKey | MColon jsstring | MAfter | MDone json

text \<open>A finished value goes into the innermost open container, or is the result.\<close>

fun complete :: "json \<Rightarrow> frame list \<Rightarrow> (frame list \<times> mode) option" where
  "complete v [] = Some ([], MDone v)"
| "complete v (FArray acc # st) = Some (FArray (v # acc) # st, MAfter)"
| "complete v (FMember acc k # st) = Some (FObject ((k, v) # acc) # st, MAfter)"
| "complete v (FObject acc # st) = None"

fun close_array :: "frame list \<Rightarrow> (frame list \<times> mode) option" where
  "close_array (FArray acc # st) = complete (JArray (rev acc)) st"
| "close_array _ = None"

fun close_object :: "frame list \<Rightarrow> (frame list \<times> mode) option" where
  "close_object (FObject acc # st) = complete (JObject (rev acc)) st"
| "close_object _ = None"

fun start_value :: "frame list \<Rightarrow> token \<Rightarrow> (frame list \<times> mode) option" where
  "start_value st (TAtom v) = complete v st"
| "start_value st (TStr s) = complete (JString s) st"
| "start_value st TLBracket = Some (FArray [] # st, MValueOrClose)"
| "start_value st TLBrace = Some (FObject [] # st, MKeyOrClose)"
| "start_value st _ = None"

fun step :: "frame list \<times> mode \<Rightarrow> token \<Rightarrow> (frame list \<times> mode) option" where
  "step (st, MValue) t = start_value st t"
| "step (st, MValueOrClose) t = (if t = TRBracket then close_array st else start_value st t)"
| "step (st, MKeyOrClose) t =
     (case t of TStr k \<Rightarrow> Some (st, MColon k) | TRBrace \<Rightarrow> close_object st | _ \<Rightarrow> None)"
| "step (st, MKey) t = (case t of TStr k \<Rightarrow> Some (st, MColon k) | _ \<Rightarrow> None)"
| "step (st, MColon k) t =
     (case (t, st) of
        (TColon, FObject acc # st') \<Rightarrow> Some (FMember acc k # st', MValue)
      | _ \<Rightarrow> None)"
| "step (st, MAfter) t =
     (case t of
        TComma \<Rightarrow>
          (case st of
             FArray acc # st' \<Rightarrow> Some (st, MValue)
           | FObject acc # st' \<Rightarrow> Some (st, MKey)
           | _ \<Rightarrow> None)
      | TRBracket \<Rightarrow> close_array st
      | TRBrace \<Rightarrow> close_object st
      | _ \<Rightarrow> None)"
| "step (st, MDone v) t = None"

fun parse_tokens :: "frame list \<times> mode \<Rightarrow> token list \<Rightarrow> json option" where
  "parse_tokens (st, m) [] = (case m of MDone v \<Rightarrow> Some v | _ \<Rightarrow> None)"
| "parse_tokens (st, m) (t # ts) =
     (case step (st, m) t of None \<Rightarrow> None | Some s' \<Rightarrow> parse_tokens s' ts)"

text \<open>\<open>JSON.parse(text)\<close>: the value, or the \<open>SyntaxError\<close> it throws.\<close>

definition JSON_parse :: "jsstring \<Rightarrow> js_error + json" where
  "JSON_parse s =
     (case lex s of
        None \<Rightarrow> Inl SyntaxError
      | Some ts \<Rightarrow>
          (case parse_tokens ([], MValue) ts of None \<Rightarrow> Inl SyntaxError | Some v \<Rightarrow> Inr v))"

section \<open>Values, truthiness and property access\<close>

text \<open>
  A number is falsy when its double is zero: when the decimal is zero, or so small that
  it rounds to zero (at most \<open>2 ^ -1075\<close>, half of the least positive double).
\<close>

definition number_is_zero :: "nat \<Rightarrow> int \<Rightarrow> bool" where
  "number_is_zero m e \<longleftrightarrow> m = 0 \<or> (e < 0 \<and> m * 2 ^ 1075 \<le> 10 ^ nat (- e))"

fun truthy :: "json \<Rightarrow> bool" where
  "truthy JNull = False"
| "truthy (JBool b) = b"
| "truthy (JNumber neg m e) = (\<not> number_is_zero m e)"
| "truthy (JString s) = (s \<noteq> [])"
| "truthy (JArray xs) = True"
| "truthy (JObject kvs) = True"

text \<open>
  \<open>v.key\<close> for a parsed value and a key that no prototype defines: the last member of
  that name of an object, \<open>undefined\<close> (\<open>None\<close>) on every other value, and a
  \<open>TypeError\<close> on \<open>null\<close>.
\<close>

fun get_prop :: "json \<Rightarrow> jsstring \<Rightarrow> js_error + json option" where
  "get_prop JNull key = Inl TypeError"
| "get_prop (JObject kvs) key = Inr (map_of (rev kvs) key)"
| "get_prop v key = Inr None"

text \<open>\<open>x || d\<close>, where \<open>x\<close> may be \<open>undefined\<close>.\<close>

definition or_else :: "json option \<Rightarrow> json \<Rightarrow> json" where
  "or_else x d = (case x of None \<Rightarrow> d | Some v \<Rightarrow> if truthy v then v else d)"

section \<open>Decoding the reply of the inference service\<close>

text \<open>
  The rewriting of the payload before it is parsed (39 is the single quote, 34 the double
  quote):
  \<open>.replace(/'/g, '"').replace(/True/g, 'true').replace(/False/g, 'false').replace(/None/g, 'null')\<close>.
\<close>

definition normalize_payload :: "jsstring \<Rightarrow> jsstring" where
  "normalize_payload s =
     replace_all (js ''None'') (js ''null'')
       (replace_all (js ''False'') (js ''false'')
          (replace_all (js ''True'') (js ''true'')
             (replace_all [39] [34] s)))"

definition META_START :: jsstring where
  "META_START = js ''METADATA_START:''"

definition META_END :: jsstring where
  "META_END = js '':METADATA_END''"

text \<open>
  The \<open>sources\<close> that a payload yields inside the inner \<open>try\<close> of both decoders:
  \<open>metadata = JSON.parse(fixed); sources = metadata.sources || []\<close>. Whatever is thrown
  there is caught and leaves the empty list.
\<close>

definition payload_sources :: "jsstring \<Rightarrow> json" where
  "payload_sources jsonStr =
     (case JSON_parse (normalize_payload jsonStr) of
        Inl err \<Rightarrow> JArray []
      | Inr metadata \<Rightarrow>
          (case get_prop metadata (js ''sources'') of
             Inl err \<Rightarrow> JArray []
           | Inr v \<Rightarrow> or_else v (JArray [])))"

text \<open>
  The decoder of \<open>POST /chat\<close> (\<open>routes/chat.js\<close>, the block after the call of the
  inference service): the pair \<open>(parsedAnswer, sources)\<close>. No string operation of the
  block throws, so the outer \<open>catch\<close> has no branch here.
\<close>

definition decode_reply :: "jsstring \<Rightarrow> jsstring \<times> json" where
  "decode_reply aiResText =
     (let metaStart = indexOf aiResText META_START;
          metaEnd = indexOf aiResText META_END
      in if metaStart \<noteq> - 1 \<and> metaEnd \<noteq> - 1 then
           (let jsonStr = js_slice aiResText (metaStart + 15) metaEnd;
                sources = payload_sources jsonStr
            in (js_trim (js_substring aiResText 0 metaStart @
                         js_substring_from aiResText (metaEnd + 13)),
                sources))
         else (aiResText, JArray []))"

text \<open>
  The decoder of the client, \<open>parseRAGResponse\<close>. The field \<open>context\<close> of its result
  is called \<open>context_field\<close> here.
\<close>

record ParsedResponse =
  answer :: jsstring
  sources :: json
  context_field :: json
  rawResponse :: jsstring

text \<open>
  The inner \<open>try\<close> of \<open>parseRAGResponse\<close>: the sources, the context and the answer text
  it leaves behind. The answer text is replaced only when nothing was thrown before.
\<close>

definition parse_metadata :: "jsstring \<Rightarrow> int \<Rightarrow> int \<Rightarrow> json \<times> json \<times> jsstring" where
  "parse_metadata raw metadataStart metadataEnd =
     (let metadataContent = js_slice raw (metadataStart + 15) metadataEnd
      in case JSON_parse (normalize_payload metadataContent) of
           Inl err \<Rightarrow> (JArray [], JString [], raw)
         | Inr metadata \<Rightarrow>
             (case get_prop metadata (js ''sources'') of
                Inl err \<Rightarrow> (JArray [], JString [], raw)
              | Inr sv \<Rightarrow>
                  (case get_prop metadata (js ''context'') of
                     Inl err \<Rightarrow> (or_else sv (JArray []), JString [], raw)
                   | Inr cv \<Rightarrow>
                       (or_else sv (JArray []), or_else cv (JString []),
                        js_slice raw 0 metadataStart @
                        js_slice_from raw (metadataEnd + 13)))))"

definition parseRAGResponse :: "jsstring \<Rightarrow> ParsedResponse" where
  "parseRAGResponse raw =
     (let metadataStart = indexOf raw META_START;
          metadataEnd = indexOf raw META_END;
          (srcs, ctx, answerText) =
            (if metadataStart \<noteq> - 1 \<and> metadataEnd \<noteq> - 1
             then parse_metadata raw metadataStart metadataEnd
             else (JArray [], JString [], raw))
      in \<lparr>answer = strip_trailing_newlines (strip_leading_newlines (js_trim answerText)),
          sources = srcs, context_field = ctx, rawResponse = raw\<rparr>)"

section \<open>The message table\<close>

text \<open>
  A row of the table \<open>messages\<close>. Conversation ids are compared as text, which is how
  SQLite compares the non-numeric ids the client sends.
\<close>

record message =
  message_id :: int
  conversation_id :: jsstring
  user_id :: int
  content :: jsstring
  speaker :: jsstring
  message_index :: int
  created_at :: jsstring

text \<open>
  The database: the rows in insertion order, and the largest row id handed out so far
  (the \<open>AUTOINCREMENT\<close> counter).
\<close>

record db =
  messages :: "message list"
  seq :: int

definition empty_db :: db where
  "empty_db = \<lparr>messages = [], seq = 0\<rparr>"

text \<open>\<open>SELECT COUNT(*) AS count FROM messages WHERE user_id = ?\<close>\<close>

definition count_messages :: "db \<Rightarrow> int \<Rightarrow> int" where
  "count_messages d userId = int (length (filter (\<lambda>m. user_id m = userId) (messages d)))"

definition next_message_id :: "db \<Rightarrow> int" where
  "next_message_id d = max (seq d) (fold max (map message_id (messages d)) 0) + 1"

text \<open>
  \<open>INSERT INTO messages (conversation_id, user_id, content, speaker, message_index)
  VALUES (?, ?, ?, ?, ?)\<close>; the row id and the time stamp are filled in by the database.
\<close>

definition insert_message ::
  "db \<Rightarrow> jsstring \<Rightarrow> int \<Rightarrow> jsstring \<Rightarrow> jsstring \<Rightarrow> int \<Rightarrow> jsstring \<Rightarrow> db" where
  "insert_message d convId userId text spk idx now =
     \<lparr>messages = messages d @
        [\<lparr>message_id = next_message_id d, conversation_id = convId, user_id = userId,
          content = text, speaker = spk, message_index = idx, created_at = now\<rparr>],
      seq = next_message_id d\<rparr>"

text \<open>\<open>... WHERE user_id = ? AND conversation_id = ?\<close>\<close>

definition scope_rows :: "db \<Rightarrow> int \<Rightarrow> jsstring \<Rightarrow> message list" where
  "scope_rows d userId convId =
     filter (\<lambda>m. user_id m = userId \<and> conversation_id m = convId) (messages d)"

text \<open>\<open>... ORDER BY message_index DESC LIMIT 8\<close>; rows of equal index keep no promised order.\<close>

definition select_last8 :: "db \<Rightarrow> int \<Rightarrow> jsstring \<Rightarrow> message list" where
  "select_last8 d userId convId = take 8 (rev (sort_key message_index (scope_rows d userId convId)))"

text \<open>\<open>... ORDER BY message_index ASC\<close>\<close>

definition select_history :: "db \<Rightarrow> int \<Rightarrow> jsstring \<Rightarrow> message list" where
  "select_history d userId convId = sort_key message_index (scope_rows d userId convId)"

text \<open>
  The append that \<open>POST /chat\<close> performs twice, for the user's turn and for the AI's turn:
  the count query, then the insert with the count plus one as index.
\<close>

definition append_message ::
  "db \<Rightarrow> jsstring \<Rightarrow> int \<Rightarrow> jsstring \<Rightarrow> jsstring \<Rightarrow> jsstring \<Rightarrow> db" where
  "append_message d convId userId text spk now =
     insert_message d convId userId text spk (count_messages d userId + 1) now"

text \<open>
  A sequence of appends executed one at a time: each turn names its conversation, its
  user, its text, its speaker and the time stamp it gets. \<open>user_rows\<close> are the rows
  that the count query counts.
\<close>

datatype turn = Turn (turn_conv: jsstring) (turn_user: int) (turn_text: jsstring)
  (turn_speaker: jsstring) (turn_time: jsstring)

fun appends :: "db \<Rightarrow> turn list \<Rightarrow> db" where
  "appends d [] = d"
| "appends d (t # ts) =
     appends (append_message d (turn_conv t) (turn_user t) (turn_text t) (turn_speaker t)
                (turn_time t)) ts"

definition user_rows :: "db \<Rightarrow> int \<Rightarrow> message list" where
  "user_rows d userId = filter (\<lambda>m. user_id m = userId) (messages d)"

section \<open>Resolving the token (the \<open>onRequest\<close> hook)\<close>

text \<open>
  \<open>req.user\<close> after the hook: never set, set to \<open>null\<close>, or the payload of the token.
  Of the payload only \<open>user_id\<close> is read (\<open>None\<close> when the payload has none).
\<close>

datatype req_user = Undefined | Null | Payload "int option"

text \<open>
  \<open>authHeader?.startsWith("Bearer ") ? authHeader.replace("Bearer ", "") : cookieToken\<close>
\<close>

definition resolve_token :: "jsstring option \<Rightarrow> jsstring option \<Rightarrow> jsstring option" where
  "resolve_token authHeader cookieToken =
     (case authHeader of
        None \<Rightarrow> cookieToken
      | Some h \<Rightarrow>
          if prefix (js ''Bearer '') h then Some (replace_first (js ''Bearer '') [] h)
          else cookieToken)"

text \<open>
  The hook. \<open>verify\<close> stands for \<open>jwt.verify(token, process.env.JWT_SECRET)\<close> of the
  library: the payload's \<open>user_id\<close>, or \<open>None\<close> when it throws (bad signature, expired,
  malformed).
\<close>

definition on_request ::
  "(jsstring \<Rightarrow> int option option) \<Rightarrow> jsstring option \<Rightarrow> jsstring option \<Rightarrow> req_user" where
  "on_request verify authHeader cookieToken =
     (case resolve_token authHeader cookieToken of
        None \<Rightarrow> Undefined
      | Some token \<Rightarrow>
          if token = [] then Undefined
          else (case verify token of None \<Rightarrow> Null | Some payload \<Rightarrow> Payload payload))"

text \<open>
  The guard \<open>!req.user || !req.user.user_id\<close> of both endpoints and the
  \<open>Number(req.user.user_id)\<close> after it: the user id when the guard lets the request pass.
\<close>

fun authenticated :: "req_user \<Rightarrow> int option" where
  "authenticated Undefined = None"
| "authenticated Null = None"
| "authenticated (Payload None) = None"
| "authenticated (Payload (Some uid)) = (if uid = 0 then None else Some uid)"

section \<open>The endpoints\<close>

text \<open>
  The JSON body of \<open>POST /chat\<close> as the client sends it: both fields are strings when
  they are present.
\<close>

record chat_body =
  question :: "jsstring option"
  conversationId :: "jsstring option"

text \<open>A request: \<open>req.user\<close> as the hook left it, and the parsed JSON body if there is one.\<close>

record request =
  user :: req_user
  body :: "chat_body option"

text \<open>What is posted to the inference service.\<close>

record ai_request =
  url :: jsstring
  secret_header :: "jsstring option"
  json_user_id :: int
  json_question :: jsstring
  json_conversationId :: jsstring
  messageContext :: "(jsstring \<times> jsstring) list"

datatype db_call =
  CountUserTurn | InsertUserTurn | SelectContext | CountAiTurn | InsertAiTurn | SelectHistory

text \<open>
  What the handler cannot decide: the environment variables, the inference service
  (\<open>Inl\<close> the message of the error that \<open>got\<close> throws on a network failure, a timeout
  or a non-success status), which database call fails with which message, and the time
  stamp the database gives a row.
\<close>

record env =
  AI_SERVICE_URL :: "jsstring option"
  INTERNAL_API_KEY :: "jsstring option"
  inference :: "ai_request \<Rightarrow> jsstring + jsstring"
  db_error :: "db_call \<Rightarrow> jsstring option"
  clock :: "db_call \<Rightarrow> jsstring"

text \<open>
  An entry of the history: \<open>messageId\<close>, \<open>role\<close>, \<open>content\<close>, \<open>index\<close>,
  \<open>createdAt\<close>.
\<close>

datatype history_message = HistoryMessage int jsstring jsstring int jsstring

text \<open>
  The bodies the endpoints send: \<open>{message}\<close>, \<open>{message, error}\<close>,
  \<open>{aiMessage, sources, answer, conversationId}\<close>, and the one-element list
  \<open>[{conversationId, userId, messages}]\<close>.
\<close>

datatype reply_body =
    MessageBody string
  | ErrorBody string jsstring
  | AnswerBody jsstring json jsstring jsstring
  | HistoryBody jsstring int "history_message list"

text \<open>
  The outcome of a handler: a reply with its status code, or an error the handler does
  not catch.
\<close>

datatype outcome = Reply nat reply_body | Thrown js_error

definition role_of :: "jsstring \<Rightarrow> jsstring" where
  "role_of spk = (if spk = js ''User'' then js ''user'' else js ''assistant'')"

definition DEFAULT_SESSION :: jsstring where
  "DEFAULT_SESSION = js ''default-session''"

text \<open>\<open>conversationId || "default-session"\<close>\<close>

definition conv_or_default :: "jsstring option \<Rightarrow> jsstring" where
  "conv_or_default c = (case c of None \<Rightarrow> DEFAULT_SESSION | Some x \<Rightarrow> if x = [] then DEFAULT_SESSION else x)"

text \<open>
  The second half of \<open>POST /chat\<close>, entered with the raw text of the inference service:
  decode it, append the AI's turn (an error of either database call is swallowed), and
  answer.
\<close>

definition record_ai_turn :: "env \<Rightarrow> db \<Rightarrow> int \<Rightarrow> jsstring \<Rightarrow> jsstring \<Rightarrow> outcome \<times> db" where
  "record_ai_turn e d userId convId aiResText =
     (let (parsedAnswer, srcs) = decode_reply aiResText;
          d' = (case db_error e CountAiTurn of
                  Some err \<Rightarrow> d
                | None \<Rightarrow>
                    (let aiIndex = count_messages d userId + 1
                     in case db_error e InsertAiTurn of
                          Some err \<Rightarrow> d
                        | None \<Rightarrow>
                            insert_message d convId userId parsedAnswer (js ''AI'') aiIndex
                              (clock e InsertAiTurn)))
      in (Reply 200 (AnswerBody parsedAnswer srcs parsedAnswer convId), d'))"

text \<open>
  What \<open>POST /chat\<close> sends to the inference service: the last eight turns of the
  conversation, oldest first, as the context, and the trimmed shared secret as a header.
\<close>

definition inference_request ::
  "env \<Rightarrow> db \<Rightarrow> int \<Rightarrow> jsstring \<Rightarrow> jsstring \<Rightarrow> jsstring \<Rightarrow> ai_request" where
  "inference_request e d userId convId q aiUrl =
     (let lastMessages = select_last8 d userId convId;
          ctx = map (\<lambda>msg. (role_of (speaker msg), content msg)) (rev lastMessages)
      in \<lparr>url = aiUrl,
          secret_header = map_option js_trim (INTERNAL_API_KEY e),
          json_user_id = userId, json_question = q,
          json_conversationId = convId, messageContext = ctx\<rparr>)"

text \<open>
  The part of \<open>POST /chat\<close> after the user's turn is stored: the check of the service
  URL, the query for the context (a database error there is answered like a failure of
  the service), the call, and the rest.
\<close>

definition ask_inference :: "env \<Rightarrow> db \<Rightarrow> int \<Rightarrow> jsstring \<Rightarrow> jsstring \<Rightarrow> outcome \<times> db" where
  "ask_inference e d userId convId q =
     (case AI_SERVICE_URL e of
        None \<Rightarrow> (Reply 500 (MessageBody ''AI service not configured.''), d)
      | Some aiUrl \<Rightarrow>
          if aiUrl = [] then (Reply 500 (MessageBody ''AI service not configured.''), d)
          else
            (case db_error e SelectContext of
               Some err \<Rightarrow> (Reply 502 (ErrorBody ''AI service unavailable'' err), d)
             | None \<Rightarrow>
                 (case inference e (inference_request e d userId convId q aiUrl) of
                    Inl err \<Rightarrow> (Reply 502 (ErrorBody ''AI service unavailable'' err), d)
                  | Inr aiResText \<Rightarrow> record_ai_turn e d userId convId aiResText)))"

text \<open>\<open>POST /chat\<close>: the outcome and the database after it.\<close>

definition post_chat :: "env \<Rightarrow> request \<Rightarrow> db \<Rightarrow> outcome \<times> db" where
  "post_chat e req d =
     (case authenticated (user req) of
        None \<Rightarrow> (Reply 401 (MessageBody ''Authentication required.''), d)
      | Some userId \<Rightarrow>
          (case body req of
             None \<Rightarrow> (Thrown TypeError, d)
           | Some b \<Rightarrow>
               (case question b of
                  None \<Rightarrow> (Reply 400 (MessageBody ''Question is required.''), d)
                | Some q \<Rightarrow>
                    if q = [] \<or> js_trim q = []
                    then (Reply 400 (MessageBody ''Question is required.''), d)
                    else
                      (let convId = conv_or_default (conversationId b)
                       in case db_error e CountUserTurn of
                            Some err \<Rightarrow> (Reply 500 (ErrorBody ''Failed to store message'' err), d)
                          | None \<Rightarrow>
                              (let msgIndex = count_messages d userId + 1
                               in case db_error e InsertUserTurn of
                                    Some err \<Rightarrow>
                                      (Reply 500 (ErrorBody ''Failed to store message'' err), d)
                                  | None \<Rightarrow>
                                      ask_inference e
                                        (insert_message d convId userId q (js ''User'') msgIndex
                                           (clock e InsertUserTurn))
                                        userId convId q)))))"

text \<open>\<open>GET /chat\<close>: it reads the conversation \<open>"default-session"\<close> and no other.\<close>

definition format_message :: "message \<Rightarrow> history_message" where
  "format_message msg =
     HistoryMessage (message_id msg) (role_of (speaker msg)) (content msg)
       (message_index msg) (created_at msg)"

definition get_chat :: "env \<Rightarrow> request \<Rightarrow> db \<Rightarrow> outcome" where
  "get_chat e req d =
     (case authenticated (user req) of
        None \<Rightarrow> Reply 401 (MessageBody ''Authentication required.'')
      | Some userId \<Rightarrow>
          (case db_error e SelectHistory of
             Some err \<Rightarrow> Reply 500 (ErrorBody ''Failed to fetch messages'' err)
           | None \<Rightarrow>
               Reply 200
                 (HistoryBody DEFAULT_SESSION userId
                    (map format_message (select_history d userId DEFAULT_SESSION)))))"

section \<open>Example environments and requests\<close>

text \<open>
  An environment whose inference service never answers, one whose service answers with a
  sentinel block, a well-formed request of a user, and a token check that accepts the
  one token \<open>good\<close> (of user 7).
\<close>

definition failing_env :: env where
  "failing_env =
     \<lparr>AI_SERVICE_URL = Some (js ''http://ai/ask''), INTERNAL_API_KEY = Some (js ''key''),
      inference = (\<lambda>r. Inl (js ''timeout'')),
      db_error = (\<lambda>c. None), clock = (\<lambda>c. js ''now'')\<rparr>"

definition sentinel_env :: env where
  "sentinel_env =
     \<lparr>AI_SERVICE_URL = Some (js ''http://ai/ask''), INTERNAL_API_KEY = Some (js ''key''),
      inference = (\<lambda>r. Inr (js ''A METADATA_START:{}:METADATA_END'')),
      db_error = (\<lambda>c. None), clock = (\<lambda>c. js ''now'')\<rparr>"

definition chat_request :: "int \<Rightarrow> jsstring \<Rightarrow> jsstring option \<Rightarrow> request" where
  "chat_request uid q c =
     \<lparr>user = Payload (Some uid), body = Some \<lparr>question = Some q, conversationId = c\<rparr>\<rparr>"

definition example_verify :: "jsstring \<Rightarrow> int option option" where
  "example_verify t = (if t = js ''good'' then Some (Some 7) else None)"

section \<open>Facts about the string operations\<close>

text \<open>\<open>indexOf\<close> answers \<open>-1\<close> exactly when the needle occurs nowhere in the text.\<close>

lemma indexOf_ge: "- 1 \<le> indexOf s n"
  by (induction s) (auto simp: Let_def)

lemma indexOf_absent: "indexOf s n = - 1 \<longleftrightarrow> \<not> sublist n s"
proof (induction s)
  case Nil
  then show ?case by simp
next
  case (Cons c cs)
  have "indexOf cs n + 1 \<noteq> - 1" using indexOf_ge [of cs n] by arith
  with Cons show ?case by (simp add: sublist_Cons_right Let_def)
qed

lemma js_trim_head: "js_trim s \<noteq> [] \<Longrightarrow> \<not> is_js_whitespace (hd (js_trim s))"
proof -
  assume ne: "js_trim s \<noteq> []"
  define t where "t = dropWhile is_js_whitespace s"
  have tr: "js_trim s = rev (dropWhile is_js_whitespace (rev t))"
    by (simp add: js_trim_def t_def)
  with ne have d: "dropWhile is_js_whitespace (rev t) \<noteq> []" by simp
  then have "t \<noteq> []" by auto
  then have h: "\<not> is_js_whitespace (hd t)" unfolding t_def by (rule hd_dropWhile)
  from d have "last (dropWhile is_js_whitespace (rev t)) = last (rev t)"
    by (metis last_appendR takeWhile_dropWhile_id)
  with d \<open>t \<noteq> []\<close> have "hd (js_trim s) = hd t"
    by (simp add: tr hd_rev last_rev)
  with h show ?thesis by simp
qed

lemma js_trim_last: "js_trim s \<noteq> [] \<Longrightarrow> \<not> is_js_whitespace (last (js_trim s))"
proof -
  assume ne: "js_trim s \<noteq> []"
  then have d: "dropWhile is_js_whitespace (rev (dropWhile is_js_whitespace s)) \<noteq> []"
    by (simp add: js_trim_def)
  then have "\<not> is_js_whitespace (hd (dropWhile is_js_whitespace (rev (dropWhile is_js_whitespace s))))"
    by (rule hd_dropWhile)
  with d show ?thesis by (simp add: js_trim_def last_rev)
qed

lemma newline_is_whitespace: "is_newline c \<Longrightarrow> is_js_whitespace c"
  by (auto simp: is_newline_def is_js_whitespace_def)

lemma strip_newlines_trim:
  "strip_trailing_newlines (strip_leading_newlines (js_trim s)) = js_trim s"
proof (cases "js_trim s = []")
  case True
  then show ?thesis by (simp add: strip_trailing_newlines_def strip_leading_newlines_def)
next
  case False
  have "\<not> is_newline (hd (js_trim s))"
    using js_trim_head [OF False] newline_is_whitespace by blast
  with False have a: "dropWhile is_newline (js_trim s) = js_trim s"
    by (cases "js_trim s") auto
  have "\<not> is_newline (last (js_trim s))"
    using js_trim_last [OF False] newline_is_whitespace by blast
  with False have "\<not> is_newline (hd (rev (js_trim s)))" by (simp add: hd_rev)
  with False have b: "dropWhile is_newline (rev (js_trim s)) = rev (js_trim s)"
    by (cases "rev (js_trim s)") auto
  show ?thesis
    by (simp add: strip_trailing_newlines_def strip_leading_newlines_def a b)
qed

lemma js_trim_blank: "(\<forall>c\<in>set q. is_js_whitespace c) \<Longrightarrow> js_trim q = []"
proof -
  assume "\<forall>c\<in>set q. is_js_whitespace c"
  then have d: "dropWhile is_js_whitespace q = []" by (induction q) auto
  show ?thesis unfolding js_trim_def d by simp
qed

lemma js_trim_Nil: "js_trim [] = []"
  by (simp add: js_trim_def)

lemma bearer_token: "resolve_token (Some (js ''Bearer '' @ t)) None = Some t"
  by (simp add: resolve_token_def js_def)

section \<open>Decoding concrete replies\<close>

text \<open>The definitions that the simplifier unfolds to run the decoders on a concrete text.\<close>

lemmas js_eval = js_def META_START_def META_END_def js_slice_def js_slice_from_def js_substring_def
  js_substring_from_def js_trim_def is_js_whitespace_def normalize_payload_def payload_sources_def
  JSON_parse_def lex_token_def lex_number_def lex_fraction_def lex_exponent_def is_digit_def
  is_json_ws_def simple_escape_def is_hex_def hex_value_def or_else_def Let_def

lemmas client_eval = parseRAGResponse_def parse_metadata_def strip_leading_newlines_def
  strip_trailing_newlines_def is_newline_def

text \<open>
  Claim C5. The server decodes the reply
  \<open>hello METADATA_START:{'sources': ['a.pdf (p.1)'], 'context': 'x'}:METADATA_END world\<close>
  to the answer \<open>hello  world\<close> (the sentinel region is gone, two spaces remain) and
  the sources \<open>["a.pdf (p.1)"]\<close>: the payload is normalised by turning every single
  quote into a double quote, and the result is strict JSON that parses to an object with
  these sources.
\<close>

theorem decode_spec_example:
  "decode_reply
     (js ''hello METADATA_START:{'sources': ['a.pdf (p.1)'], 'context': 'x'}:METADATA_END world'')
   = (js ''hello  world'', JArray [JString (js ''a.pdf (p.1)'')])
   \<and> normalize_payload (js ''{'sources': ['a.pdf (p.1)'], 'context': 'x'}'')
     = js ''{\"sources\": [\"a.pdf (p.1)\"], \"context\": \"x\"}''
   \<and> JSON_parse (js ''{\"sources\": [\"a.pdf (p.1)\"], \"context\": \"x\"}'')
     = Inr (JObject [(js ''sources'', JArray [JString (js ''a.pdf (p.1)'')]),
                     (js ''context'', JString (js ''x''))])"
  by (simp add: decode_reply_def js_eval)

text \<open>
  Claim C10. There is a well-formed sentinel block whose payload holds an apostrophe
  inside a string, \<open>METADATA_START:{'sources': ["John's notes.pdf"]}:METADATA_END\<close>,
  for which the normalisation (every single quote becomes a double quote) produces text
  that is not JSON, although the payload with only its key quotes rewritten is JSON and
  lists one source. Both decoders return the empty source list for it, and the server
  decoder still strips the block from the answer.
\<close>

theorem apostrophe_breaks_normalization:
  "normalize_payload (js ''{'sources': [\"John's notes.pdf\"]}'')
     = js ''{\"sources\": [\"John\"s notes.pdf\"]}''
   \<and> JSON_parse (js ''{\"sources\": [\"John\"s notes.pdf\"]}'') = Inl SyntaxError
   \<and> JSON_parse (js ''{\"sources\": [\"John's notes.pdf\"]}'')
     = Inr (JObject [(js ''sources'', JArray [JString (js ''John's notes.pdf'')])])
   \<and> decode_reply (js ''METADATA_START:{'sources': [\"John's notes.pdf\"]}:METADATA_END'')
     = ([], JArray [])
   \<and> decode_reply
       (js ''See METADATA_START:{'sources': [\"John's notes.pdf\"]}:METADATA_END the notes'')
     = (js ''See  the notes'', JArray [])
   \<and> sources (parseRAGResponse
         (js ''See METADATA_START:{'sources': [\"John's notes.pdf\"]}:METADATA_END the notes''))
     = JArray []"
  by (simp add: decode_reply_def js_eval client_eval)

text \<open>
  Claim C3, at two replies whose payload \<open>{oops\<close> is not JSON after normalisation.
  For \<open>x METADATA_START:{oops:METADATA_END y\<close> the server decoder strips the block and
  answers \<open>x  y\<close> with no sources, but the client decoder \<open>parseRAGResponse\<close>,
  which removes the block only after a successful parse, answers with the whole text,
  the sentinel block still in it. For
  \<open>:METADATA_END x METADATA_START:{oops:METADATA_END y\<close>, where an end sentinel also
  stands before the block, the answer of the server decoder keeps the whole block as
  well. Both decoders return a pair for every text: they are total functions.
\<close>

theorem client_keeps_unparsable_block:
  "JSON_parse (normalize_payload (js ''{oops'')) = Inl SyntaxError
   \<and> decode_reply (js ''x METADATA_START:{oops:METADATA_END y'') = (js ''x  y'', JArray [])
   \<and> answer (parseRAGResponse (js ''x METADATA_START:{oops:METADATA_END y''))
     = js ''x METADATA_START:{oops:METADATA_END y''
   \<and> sources (parseRAGResponse (js ''x METADATA_START:{oops:METADATA_END y'')) = JArray []
   \<and> decode_reply (js '':METADATA_END x METADATA_START:{oops:METADATA_END y'')
     = (js '':METADATA_END x  x METADATA_START:{oops:METADATA_END y'', JArray [])"
  by (simp add: decode_reply_def js_eval client_eval)

text \<open>
  Claim C4, at the reply \<open>a:METADATA_END b METADATA_START:c\<close>, whose only end sentinel
  stands before the start sentinel. The server looks for the end sentinel from the
  beginning of the text, finds both (at 1 and at 17), and answers with the text before
  the start sentinel followed by the text after the end sentinel: the middle part is
  there twice and both sentinels are still in the answer,
  \<open>a:METADATA_END b  b METADATA_START:c\<close>, where the claim has the input unchanged.
\<close>

theorem end_sentinel_before_start_garbles_answer:
  "indexOf (js ''a:METADATA_END b METADATA_START:c'') META_START = 17
   \<and> indexOf (js ''a:METADATA_END b METADATA_START:c'') META_END = 1
   \<and> decode_reply (js ''a:METADATA_END b METADATA_START:c'')
     = (js ''a:METADATA_END b  b METADATA_START:c'', JArray [])"
  by (simp add: decode_reply_def js_eval)

section \<open>Replies without sentinels\<close>

text \<open>
  Claim C6, as the code has it. For every text that contains neither sentinel, the server
  decoder returns the text exactly as it came, not trimmed, with the empty source list;
  the client decoder \<open>parseRAGResponse\<close> returns the text with leading and trailing
  white space trimmed, with the empty source list.
\<close>

theorem no_sentinel_server_unchanged_client_trimmed:
  assumes "\<not> sublist META_START s" and "\<not> sublist META_END s"
  shows "decode_reply s = (s, JArray [])
         \<and> answer (parseRAGResponse s) = js_trim s
         \<and> sources (parseRAGResponse s) = JArray []"
proof -
  from assms have i: "indexOf s META_START = - 1" "indexOf s META_END = - 1"
    by (simp_all add: indexOf_absent)
  show ?thesis
    by (simp add: decode_reply_def parseRAGResponse_def i strip_newlines_trim)
qed

theorem no_sentinel_server_unchanged_client_trimmed_witness:
  "\<not> sublist META_START (js '' hi '') \<and> \<not> sublist META_END (js '' hi '')
   \<and> decode_reply (js '' hi '') = (js '' hi '', JArray [])
   \<and> answer (parseRAGResponse (js '' hi '')) = js ''hi''
   \<and> sources (parseRAGResponse (js '' hi '')) = JArray []"
proof -
  have a: "\<not> sublist META_START (js '' hi '')"
    by (simp add: js_def META_START_def sublist_Cons_right)
  have b: "\<not> sublist META_END (js '' hi '')"
    by (simp add: js_def META_END_def sublist_Cons_right)
  have c: "js_trim (js '' hi '') = js ''hi''"
    by (simp add: js_eval)
  from no_sentinel_server_unchanged_client_trimmed [OF a b] a b c show ?thesis by simp
qed

text \<open>
  The reply \<open>" hi "\<close> holds no sentinel, and the answer of the server decoder for it
  is \<open>" hi "\<close> itself, not the trimmed \<open>"hi"\<close>.
\<close>

theorem server_does_not_trim_without_sentinels:
  "\<not> sublist META_START (js '' hi '') \<and> \<not> sublist META_END (js '' hi '')
   \<and> fst (decode_reply (js '' hi '')) = js '' hi ''
   \<and> js_trim (js '' hi '') = js ''hi''
   \<and> fst (decode_reply (js '' hi '')) \<noteq> js_trim (js '' hi '')"
  by (simp add: decode_reply_def js_eval sublist_Cons_right)

section \<open>Authentication and validation\<close>

text \<open>
  Claim C7. When the token that the hook resolves from the header and the cookie fails
  verification (bad signature, expired, malformed: \<open>jwt.verify\<close> throws), both
  endpoints answer 401 and leave the database as it is, which is exactly what they do
  for a request that carries no token at all; nothing is thrown. And a request with a
  token only in the cookie leaves the hook with the same \<open>req.user\<close> as a request with
  that token only in the header \<open>Authorization: Bearer <token>\<close>, so every endpoint
  treats the two alike.
\<close>

theorem invalid_token_is_unauthenticated:
  "(resolve_token h c = Some t \<and> verify t = None \<longrightarrow>
      post_chat e \<lparr>user = on_request verify h c, body = b\<rparr> d
        = (Reply 401 (MessageBody ''Authentication required.''), d)
      \<and> post_chat e \<lparr>user = on_request verify h c, body = b\<rparr> d
        = post_chat e \<lparr>user = on_request verify None None, body = b\<rparr> d
      \<and> get_chat e \<lparr>user = on_request verify h c, body = b\<rparr> d
        = Reply 401 (MessageBody ''Authentication required.'')
      \<and> get_chat e \<lparr>user = on_request verify h c, body = b\<rparr> d
        = get_chat e \<lparr>user = on_request verify None None, body = b\<rparr> d)
   \<and> on_request verify None (Some t') = on_request verify (Some (js ''Bearer '' @ t')) None"
proof -
  have none: "on_request verify None None = Undefined"
    by (simp add: on_request_def resolve_token_def)
  have bad: "authenticated (on_request verify h c) = None"
    if "resolve_token h c = Some t" "verify t = None"
    using that by (simp add: on_request_def)
  have cookie: "resolve_token None (Some t') = Some t'"
    by (simp add: resolve_token_def)
  have same: "on_request verify None (Some t') = on_request verify (Some (js ''Bearer '' @ t')) None"
    by (simp add: on_request_def bearer_token cookie)
  show ?thesis
    by (simp add: post_chat_def get_chat_def none bad same)
qed

theorem invalid_token_is_unauthenticated_witness:
  "resolve_token (Some (js ''Bearer bad'')) (Some (js ''good'')) = Some (js ''bad'')
   \<and> example_verify (js ''bad'') = None
   \<and> post_chat sentinel_env
        \<lparr>user = on_request example_verify (Some (js ''Bearer bad'')) (Some (js ''good'')),
         body = Some \<lparr>question = Some (js ''hi''), conversationId = None\<rparr>\<rparr> empty_db
       = (Reply 401 (MessageBody ''Authentication required.''), empty_db)
   \<and> on_request example_verify None (Some (js ''good'')) = Payload (Some 7)
   \<and> on_request example_verify (Some (js ''Bearer '' @ js ''good'')) None = Payload (Some 7)"
proof -
  have a: "resolve_token (Some (js ''Bearer bad'')) (Some (js ''good'')) = Some (js ''bad'')"
    by (simp add: resolve_token_def js_def)
  have b: "example_verify (js ''bad'') = None"
    by (simp add: example_verify_def js_def)
  have c: "on_request example_verify None (Some (js ''good'')) = Payload (Some 7)"
    by (simp add: on_request_def resolve_token_def example_verify_def js_def)
  from invalid_token_is_unauthenticated
         [of "Some (js ''Bearer bad'')" "Some (js ''good'')" "js ''bad''" example_verify
             sentinel_env "Some \<lparr>question = Some (js ''hi''), conversationId = None\<rparr>" empty_db
             "js ''good''"]
       a b c
  show ?thesis by simp
qed

text \<open>
  When an authenticated \<open>POST /chat\<close> has a body, and the body has no question or a
  question that is empty or consists of white space only, the handler answers 400 and
  the database is unchanged: no row is written for any scope.
\<close>

theorem blank_question_rejected_before_any_write:
  assumes "authenticated (user req) = Some uid" and "body req = Some b"
    and "question b = None \<or> (\<exists>q. question b = Some q \<and> list_all is_js_whitespace q)"
  shows "post_chat e req d = (Reply 400 (MessageBody ''Question is required.''), d)"
  using assms by (auto simp: post_chat_def js_trim_blank list_all_iff)

theorem blank_question_rejected_before_any_write_witness:
  "authenticated (user (chat_request 1 (js ''  '') None)) = Some 1
   \<and> body (chat_request 1 (js ''  '') None)
       = Some \<lparr>question = Some (js ''  ''), conversationId = None\<rparr>
   \<and> list_all is_js_whitespace (js ''  '')
   \<and> post_chat sentinel_env (chat_request 1 (js ''  '') None) empty_db
       = (Reply 400 (MessageBody ''Question is required.''), empty_db)"
proof -
  have a: "authenticated (user (chat_request 1 (js ''  '') None)) = Some 1"
    by (simp add: chat_request_def)
  have b: "body (chat_request 1 (js ''  '') None)
           = Some \<lparr>question = Some (js ''  ''), conversationId = None\<rparr>"
    by (simp add: chat_request_def)
  have c: "list_all is_js_whitespace (js ''  '')"
    by (simp add: js_def is_js_whitespace_def)
  have "question \<lparr>question = Some (js ''  ''), conversationId = None\<rparr> = None \<or>
        (\<exists>q. question \<lparr>question = Some (js ''  ''), conversationId = None\<rparr> = Some q
             \<and> list_all is_js_whitespace q)"
    using c by simp
  from blank_question_rejected_before_any_write [OF a b this] a b c show ?thesis by simp
qed

text \<open>
  Claim C8, at an authenticated \<open>POST /chat\<close> that has no body at all. Its question is
  absent, but the handler does not reach the check of the question: the destructuring
  \<open>const { question, conversationId } = req.body\<close> stands before that check and outside
  every \<open>try\<close>, so a \<open>TypeError\<close> leaves the handler where the claim has the answer
  400. The database is unchanged. The same request with the empty object as body is
  answered with 400.
\<close>

theorem missing_body_throws_before_validation:
  "post_chat e \<lparr>user = Payload (Some 1), body = None\<rparr> d = (Thrown TypeError, d)
   \<and> post_chat e
         \<lparr>user = Payload (Some 1), body = Some \<lparr>question = None, conversationId = None\<rparr>\<rparr> d
       = (Reply 400 (MessageBody ''Question is required.''), d)"
  by (simp add: post_chat_def)

section \<open>The user's turn and a failing inference service\<close>

text \<open>
  Up to the call of the inference service, a valid request of an authenticated user with
  a working database does one thing: it appends the user's turn.
\<close>

lemma js_trim_nonempty: "js_trim q \<noteq> [] \<Longrightarrow> q \<noteq> []"
  by (auto simp: js_trim_Nil)

lemma role_of_User: "role_of (js ''User'') = js ''user''"
  by (simp add: role_of_def)

lemma post_chat_user_turn:
  assumes "authenticated (user req) = Some uid"
    and "body req = Some b" and "question b = Some q" and "js_trim q \<noteq> []"
    and "db_error e CountUserTurn = None" and "db_error e InsertUserTurn = None"
  shows "post_chat e req d =
         ask_inference e
           (append_message d (conv_or_default (conversationId b)) uid q (js ''User'')
              (clock e InsertUserTurn))
           uid (conv_or_default (conversationId b)) q"
  using assms by (simp add: post_chat_def append_message_def js_trim_nonempty Let_def)

text \<open>The definitions that the simplifier unfolds to run the endpoints on concrete requests.\<close>

lemmas handler_eval = post_chat_def ask_inference_def record_ai_turn_def inference_request_def
  get_chat_def empty_db_def conv_or_default_def DEFAULT_SESSION_def count_messages_def
  insert_message_def append_message_def next_message_id_def select_history_def select_last8_def
  scope_rows_def format_message_def role_of_def decode_reply_def

text \<open>
  Claim C9, as the code has it. For every authenticated \<open>POST /chat\<close> with a valid
  question whose user turn is stored and whose call of the inference service fails, the
  request ends with 502, and the database afterwards is the database before plus the row
  of the user's turn: nothing is rolled back. A later \<open>GET /chat\<close> of that user shows
  the turn when the conversation is the default one, \<open>"default-session"\<close>; the history
  endpoint reads no other conversation.
\<close>

theorem inference_failure_keeps_user_turn:
  assumes auth: "authenticated (user req) = Some uid"
    and b: "body req = Some b" and q: "question b = Some q" and ne: "js_trim q \<noteq> []"
    and c1: "db_error e CountUserTurn = None" and c2: "db_error e InsertUserTurn = None"
    and c3: "db_error e SelectContext = None"
    and url: "AI_SERVICE_URL e = Some u" and une: "u \<noteq> []"
    and d1: "d1 = append_message d (conv_or_default (conversationId b)) uid q (js ''User'')
                    (clock e InsertUserTurn)"
    and fail: "inference e (inference_request e d1 uid (conv_or_default (conversationId b)) q u)
               = Inl err"
  shows "post_chat e req d = (Reply 502 (ErrorBody ''AI service unavailable'' err), d1)
     \<and> messages d1 = messages d @
          [\<lparr>message_id = next_message_id d,
            conversation_id = conv_or_default (conversationId b), user_id = uid,
            content = q, speaker = js ''User'',
            message_index = count_messages d uid + 1,
            created_at = clock e InsertUserTurn\<rparr>]
     \<and> (conv_or_default (conversationId b) = DEFAULT_SESSION \<and> db_error e' SelectHistory = None
          \<longrightarrow> get_chat e' req d1
                = Reply 200 (HistoryBody DEFAULT_SESSION uid
                               (map format_message (select_history d1 uid DEFAULT_SESSION)))
              \<and> HistoryMessage (next_message_id d) (js ''user'') q (count_messages d uid + 1)
                    (clock e InsertUserTurn)
                  \<in> set (map format_message (select_history d1 uid DEFAULT_SESSION)))"
proof -
  let ?conv = "conv_or_default (conversationId b)"
  let ?row = "\<lparr>message_id = next_message_id d, conversation_id = ?conv, user_id = uid,
               content = q, speaker = js ''User'', message_index = count_messages d uid + 1,
               created_at = clock e InsertUserTurn\<rparr>"
  have "post_chat e req d = ask_inference e d1 uid ?conv q"
    unfolding d1 using auth b q ne c1 c2 by (rule post_chat_user_turn)
  also have "\<dots> = (Reply 502 (ErrorBody ''AI service unavailable'' err), d1)"
    using c3 url une fail by (simp add: ask_inference_def)
  finally have first: "post_chat e req d = (Reply 502 (ErrorBody ''AI service unavailable'' err), d1)" .
  have rows: "messages d1 = messages d @ [?row]"
    by (simp add: d1 append_message_def insert_message_def)
  have hist: "get_chat e' req d1
                = Reply 200 (HistoryBody DEFAULT_SESSION uid
                               (map format_message (select_history d1 uid DEFAULT_SESSION)))
              \<and> HistoryMessage (next_message_id d) (js ''user'') q (count_messages d uid + 1)
                    (clock e InsertUserTurn)
                  \<in> set (map format_message (select_history d1 uid DEFAULT_SESSION))"
    if dflt: "?conv = DEFAULT_SESSION" and ok: "db_error e' SelectHistory = None"
  proof -
    have "?row \<in> set (select_history d1 uid DEFAULT_SESSION)"
      by (simp add: select_history_def scope_rows_def rows dflt)
    then have "format_message ?row \<in> set (map format_message (select_history d1 uid DEFAULT_SESSION))"
      by simp
    moreover have "format_message ?row =
        HistoryMessage (next_message_id d) (js ''user'') q (count_messages d uid + 1)
          (clock e InsertUserTurn)"
      by (simp add: format_message_def role_of_User)
    ultimately show ?thesis using auth ok by (simp add: get_chat_def)
  qed
  from first rows hist show ?thesis by blast
qed

theorem inference_failure_keeps_user_turn_witness:
  "post_chat failing_env (chat_request 1 (js ''hi'') None) empty_db
     = (Reply 502 (ErrorBody ''AI service unavailable'' (js ''timeout'')),
        append_message empty_db DEFAULT_SESSION 1 (js ''hi'') (js ''User'') (js ''now''))
   \<and> get_chat failing_env (chat_request 1 (js ''hi'') None)
        (append_message empty_db DEFAULT_SESSION 1 (js ''hi'') (js ''User'') (js ''now''))
     = Reply 200 (HistoryBody DEFAULT_SESSION 1
                    [HistoryMessage 1 (js ''user'') (js ''hi'') 1 (js ''now'')])"
proof -
  let ?req = "chat_request 1 (js ''hi'') None"
  let ?b = "\<lparr>question = Some (js ''hi''), conversationId = None\<rparr>"
  let ?d1 = "append_message empty_db DEFAULT_SESSION 1 (js ''hi'') (js ''User'') (js ''now'')"
  have conv: "conv_or_default (conversationId ?b) = DEFAULT_SESSION"
    by (simp add: conv_or_default_def)
  have h: "authenticated (user ?req) = Some 1" "body ?req = Some ?b"
    "question ?b = Some (js ''hi'')" "js_trim (js ''hi'') \<noteq> []"
    "db_error failing_env CountUserTurn = None" "db_error failing_env InsertUserTurn = None"
    "db_error failing_env SelectContext = None"
    "AI_SERVICE_URL failing_env = Some (js ''http://ai/ask'')" "js ''http://ai/ask'' \<noteq> []"
    "?d1 = append_message empty_db (conv_or_default (conversationId ?b)) 1 (js ''hi'') (js ''User'')
             (clock failing_env InsertUserTurn)"
    "inference failing_env
       (inference_request failing_env ?d1 1 (conv_or_default (conversationId ?b)) (js ''hi'')
          (js ''http://ai/ask'')) = Inl (js ''timeout'')"
    "db_error failing_env SelectHistory = None"
    by (simp_all add: chat_request_def failing_env_def conv_or_default_def js_def js_trim_def
          is_js_whitespace_def)
  have hist: "map format_message (select_history ?d1 1 DEFAULT_SESSION)
              = [HistoryMessage 1 (js ''user'') (js ''hi'') 1 (js ''now'')]"
    by (simp add: handler_eval js_def)
  from inference_failure_keeps_user_turn
         [OF h(1-11), where e' = failing_env] conv h(12) hist
  show ?thesis by simp
qed

text \<open>
  User 1 asks \<open>hi\<close> in the conversation \<open>c2\<close> and the inference service fails: the
  answer is 502, the turn is in the table, and \<open>GET /chat\<close> of user 1 afterwards
  shows an empty list of messages.
\<close>

theorem history_omits_other_conversations:
  "post_chat failing_env (chat_request 1 (js ''hi'') (Some (js ''c2''))) empty_db
     = (Reply 502 (ErrorBody ''AI service unavailable'' (js ''timeout'')),
        append_message empty_db (js ''c2'') 1 (js ''hi'') (js ''User'') (js ''now''))
   \<and> map content (messages (append_message empty_db (js ''c2'') 1 (js ''hi'') (js ''User'') (js ''now'')))
     = [js ''hi'']
   \<and> get_chat failing_env (chat_request 1 (js ''hi'') (Some (js ''c2'')))
        (append_message empty_db (js ''c2'') 1 (js ''hi'') (js ''User'') (js ''now''))
     = Reply 200 (HistoryBody DEFAULT_SESSION 1 [])"
  by (simp add: handler_eval failing_env_def chat_request_def js_def js_trim_def
        is_js_whitespace_def)

section \<open>The AI's turn\<close>

text \<open>
  Claim C2, as the code has it. For every request that gets a reply from the inference
  service (and whose database calls succeed), the content stored as the AI's turn is the
  visible answer that the decoder computes for that reply, \<open>parsedAnswer\<close>: the same
  text that the response carries as \<open>answer\<close> and \<open>aiMessage\<close>. The row is appended
  after the row of the user's turn, with the speaker \<open>AI\<close>.
\<close>

theorem ai_turn_stores_decoded_answer:
  assumes auth: "authenticated (user req) = Some uid"
    and b: "body req = Some b" and q: "question b = Some q" and ne: "js_trim q \<noteq> []"
    and c1: "db_error e CountUserTurn = None" and c2: "db_error e InsertUserTurn = None"
    and c3: "db_error e SelectContext = None"
    and c4: "db_error e CountAiTurn = None" and c5: "db_error e InsertAiTurn = None"
    and url: "AI_SERVICE_URL e = Some u" and une: "u \<noteq> []"
    and d1: "d1 = append_message d (conv_or_default (conversationId b)) uid q (js ''User'')
                    (clock e InsertUserTurn)"
    and reply: "inference e (inference_request e d1 uid (conv_or_default (conversationId b)) q u)
               = Inr raw"
  shows "post_chat e req d =
           (Reply 200 (AnswerBody (fst (decode_reply raw)) (snd (decode_reply raw))
                         (fst (decode_reply raw)) (conv_or_default (conversationId b))),
            append_message d1 (conv_or_default (conversationId b)) uid (fst (decode_reply raw))
              (js ''AI'') (clock e InsertAiTurn))
     \<and> content (last (messages (snd (post_chat e req d)))) = fst (decode_reply raw)
     \<and> speaker (last (messages (snd (post_chat e req d)))) = js ''AI''"
proof -
  let ?conv = "conv_or_default (conversationId b)"
  let ?d2 = "append_message d1 ?conv uid (fst (decode_reply raw)) (js ''AI'') (clock e InsertAiTurn)"
  have "post_chat e req d = ask_inference e d1 uid ?conv q"
    unfolding d1 using auth b q ne c1 c2 by (rule post_chat_user_turn)
  also have "\<dots> = record_ai_turn e d1 uid ?conv raw"
    using c3 url une reply by (simp add: ask_inference_def)
  also have "\<dots> = (Reply 200 (AnswerBody (fst (decode_reply raw)) (snd (decode_reply raw))
                         (fst (decode_reply raw)) ?conv), ?d2)"
    using c4 c5 by (simp add: record_ai_turn_def append_message_def split_beta)
  finally have first: "post_chat e req d =
      (Reply 200 (AnswerBody (fst (decode_reply raw)) (snd (decode_reply raw))
                    (fst (decode_reply raw)) ?conv), ?d2)" .
  have "content (last (messages ?d2)) = fst (decode_reply raw)"
    and "speaker (last (messages ?d2)) = js ''AI''"
    by (simp_all add: append_message_def insert_message_def)
  with first show ?thesis by simp
qed

theorem ai_turn_stores_decoded_answer_witness:
  "post_chat sentinel_env (chat_request 1 (js ''hi'') None) empty_db
     = (Reply 200 (AnswerBody (js ''A'') (JArray []) (js ''A'') DEFAULT_SESSION),
        append_message
          (append_message empty_db DEFAULT_SESSION 1 (js ''hi'') (js ''User'') (js ''now''))
          DEFAULT_SESSION 1 (js ''A'') (js ''AI'') (js ''now''))
   \<and> content (last (messages (snd (post_chat sentinel_env (chat_request 1 (js ''hi'') None)
                                       empty_db)))) = js ''A''"
proof -
  let ?req = "chat_request 1 (js ''hi'') None"
  let ?b = "\<lparr>question = Some (js ''hi''), conversationId = None\<rparr>"
  let ?d1 = "append_message empty_db DEFAULT_SESSION 1 (js ''hi'') (js ''User'') (js ''now'')"
  have conv: "conv_or_default (conversationId ?b) = DEFAULT_SESSION"
    by (simp add: conv_or_default_def)
  have h: "authenticated (user ?req) = Some 1" "body ?req = Some ?b"
    "question ?b = Some (js ''hi'')" "js_trim (js ''hi'') \<noteq> []"
    "db_error sentinel_env CountUserTurn = None" "db_error sentinel_env InsertUserTurn = None"
    "db_error sentinel_env SelectContext = None"
    "db_error sentinel_env CountAiTurn = None" "db_error sentinel_env InsertAiTurn = None"
    "AI_SERVICE_URL sentinel_env = Some (js ''http://ai/ask'')" "js ''http://ai/ask'' \<noteq> []"
    "?d1 = append_message empty_db (conv_or_default (conversationId ?b)) 1 (js ''hi'') (js ''User'')
             (clock sentinel_env InsertUserTurn)"
    "inference sentinel_env
       (inference_request sentinel_env ?d1 1 (conv_or_default (conversationId ?b)) (js ''hi'')
          (js ''http://ai/ask'')) = Inr (js ''A METADATA_START:{}:METADATA_END'')"
    by (simp_all add: chat_request_def sentinel_env_def conv_or_default_def js_def js_trim_def
          is_js_whitespace_def)
  have dec: "decode_reply (js ''A METADATA_START:{}:METADATA_END'') = (js ''A'', JArray [])"
    by (simp add: decode_reply_def js_eval)
  have clk: "clock sentinel_env InsertAiTurn = js ''now''"
    by (simp add: sentinel_env_def)
  from ai_turn_stores_decoded_answer [OF h] conv dec clk
  show ?thesis by (simp add: append_message_def insert_message_def)
qed

text \<open>
  The inference service answers \<open>A METADATA_START:{}:METADATA_END\<close>; the two rows in
  the table afterwards hold \<open>hi\<close> and \<open>A\<close>, and the AI's row is not the upstream
  text.
\<close>

theorem ai_turn_is_not_the_raw_reply:
  "inference sentinel_env
     (inference_request sentinel_env
        (append_message empty_db DEFAULT_SESSION 1 (js ''hi'') (js ''User'') (js ''now''))
        1 DEFAULT_SESSION (js ''hi'') (js ''http://ai/ask''))
     = Inr (js ''A METADATA_START:{}:METADATA_END'')
   \<and> map content (messages (snd (post_chat sentinel_env (chat_request 1 (js ''hi'') None) empty_db)))
     = [js ''hi'', js ''A'']
   \<and> content (last (messages (snd (post_chat sentinel_env (chat_request 1 (js ''hi'') None)
                                       empty_db))))
     \<noteq> js ''A METADATA_START:{}:METADATA_END''"
  by (simp add: handler_eval sentinel_env_def chat_request_def js_eval)

section \<open>The indices of the turns\<close>

lemma count_user_rows: "count_messages d u = int (length (user_rows d u))"
  by (simp add: count_messages_def user_rows_def)

lemma user_rows_append_message:
  "user_rows (append_message d c v t s n) u =
     (if v = u
      then user_rows d u @
           [\<lparr>message_id = next_message_id d, conversation_id = c, user_id = v, content = t,
             speaker = s, message_index = int (length (user_rows d v)) + 1, created_at = n\<rparr>]
      else user_rows d u)"
  by (simp add: append_message_def insert_message_def user_rows_def count_messages_def)

lemma user_indices_appends:
  "map message_index (user_rows (appends d ts) u) =
     map message_index (user_rows d u) @
     map int [Suc (length (user_rows d u)) ..<
              Suc (length (user_rows d u) + length (filter (\<lambda>t. turn_user t = u) ts))]"
proof (induction ts arbitrary: d)
  case Nil
  then show ?case by simp
next
  case (Cons t ts)
  let ?d = "append_message d (turn_conv t) (turn_user t) (turn_text t) (turn_speaker t)
              (turn_time t)"
  let ?k = "length (user_rows d u)"
  let ?n = "length (filter (\<lambda>t. turn_user t = u) ts)"
  have IH: "map message_index (user_rows (appends ?d ts) u) =
            map message_index (user_rows ?d u) @
            map int [Suc (length (user_rows ?d u)) ..< Suc (length (user_rows ?d u) + ?n)]"
    by (rule Cons.IH)
  show ?case
  proof (cases "turn_user t = u")
    case True
    have up: "[Suc ?k ..< Suc (Suc (?k + ?n))] = Suc ?k # [Suc (Suc ?k) ..< Suc (Suc (?k + ?n))]"
      by (rule upt_conv_Cons) simp
    from True have len: "length (user_rows ?d u) = Suc ?k"
      and idx: "map message_index (user_rows ?d u) = map message_index (user_rows d u) @ [int ?k + 1]"
      by (simp_all add: user_rows_append_message)
    have "map message_index (user_rows (appends d (t # ts)) u)
          = map message_index (user_rows ?d u) @
            map int [Suc (length (user_rows ?d u)) ..< Suc (length (user_rows ?d u) + ?n)]"
      using IH by (simp del: upt_Suc)
    also have "\<dots> = map message_index (user_rows d u) @ [int ?k + 1] @
            map int [Suc (Suc ?k) ..< Suc (Suc (?k + ?n))]"
      unfolding len idx by (simp del: upt_Suc)
    also have "\<dots> = map message_index (user_rows d u) @ map int [Suc ?k ..< Suc (Suc (?k + ?n))]"
      by (simp add: up del: upt_Suc)
    finally show ?thesis using True by (simp del: upt_Suc)
  next
    case False
    then have "user_rows ?d u = user_rows d u"
      by (simp add: user_rows_append_message)
    with IH False show ?thesis by (simp del: upt_Suc)
  qed
qed

lemma user_convs_appends:
  "list_all (\<lambda>m. conversation_id m = c) (user_rows d u) \<Longrightarrow>
   list_all (\<lambda>t. turn_conv t = c) (filter (\<lambda>t. turn_user t = u) ts) \<Longrightarrow>
   list_all (\<lambda>m. conversation_id m = c) (user_rows (appends d ts) u)"
proof (induction ts arbitrary: d)
  case Nil
  then show ?case by simp
next
  case (Cons t ts)
  let ?d = "append_message d (turn_conv t) (turn_user t) (turn_text t) (turn_speaker t)
              (turn_time t)"
  from Cons.prems have rows: "list_all (\<lambda>m. conversation_id m = c) (user_rows ?d u)"
    by (simp add: user_rows_append_message split: if_splits)
  from Cons.prems(2) have rest: "list_all (\<lambda>t. turn_conv t = c) (filter (\<lambda>t. turn_user t = u) ts)"
    by (simp split: if_splits)
  from Cons.IH [OF rows rest] show ?case by simp
qed

lemma scope_rows_user_rows:
  "scope_rows d u c = filter (\<lambda>m. conversation_id m = c) (user_rows d u)"
  by (simp add: scope_rows_def user_rows_def conj_commute)

text \<open>
  Claim C1, as the code has it. The index that an append assigns is the number of rows
  of the same user, in whatever conversation, plus one. So for a user without rows at the
  start, the indices of the user's turns after any sequence of appends executed one at a
  time are exactly 1..N in order, counted over all conversations of the user; and within
  one scope (user, conversation) they are exactly 1..N when every append of the user
  goes to that conversation.
\<close>

theorem indices_count_rows_of_user:
  "message_index (last (messages (append_message d c u t s n))) = count_messages d u + 1
   \<and> (count_messages d u = 0 \<longrightarrow>
        map message_index (user_rows (appends d ts) u)
          = map int [1 ..< Suc (length (filter (\<lambda>t. turn_user t = u) ts))])
   \<and> (count_messages d u = 0 \<and> list_all (\<lambda>t. turn_conv t = c) (filter (\<lambda>t. turn_user t = u) ts)
        \<longrightarrow> map message_index (scope_rows (appends d ts) u c)
          = map int [1 ..< Suc (length (filter (\<lambda>t. turn_user t = u) ts))])"
proof -
  have one: "message_index (last (messages (append_message d c u t s n))) = count_messages d u + 1"
    by (simp add: append_message_def insert_message_def)
  have two: "map message_index (user_rows (appends d ts) u)
          = map int [1 ..< Suc (length (filter (\<lambda>t. turn_user t = u) ts))]"
    if "count_messages d u = 0"
  proof -
    from that have "user_rows d u = []" by (simp add: count_user_rows)
    then show ?thesis by (simp add: user_indices_appends del: upt_Suc)
  qed
  have three: "map message_index (scope_rows (appends d ts) u c)
          = map int [1 ..< Suc (length (filter (\<lambda>t. turn_user t = u) ts))]"
    if z: "count_messages d u = 0"
      and a: "list_all (\<lambda>t. turn_conv t = c) (filter (\<lambda>t. turn_user t = u) ts)"
  proof -
    from z have "user_rows d u = []" by (simp add: count_user_rows)
    then have "list_all (\<lambda>m. conversation_id m = c) (user_rows d u)" by simp
    then have "list_all (\<lambda>m. conversation_id m = c) (user_rows (appends d ts) u)"
      using a by (rule user_convs_appends)
    then have "scope_rows (appends d ts) u c = user_rows (appends d ts) u"
      by (simp add: scope_rows_user_rows list_all_iff)
    with two [OF z] show ?thesis by simp
  qed
  from one two three show ?thesis by blast
qed

theorem indices_count_rows_of_user_witness:
  "count_messages empty_db 1 = 0
   \<and> map message_index
       (user_rows
          (appends empty_db
             [Turn (js ''a'') 1 (js ''q1'') (js ''User'') (js ''now''),
              Turn (js ''b'') 1 (js ''q2'') (js ''User'') (js ''now''),
              Turn (js ''a'') 2 (js ''q3'') (js ''User'') (js ''now'')]) 1)
     = [1, 2]
   \<and> map message_index
       (scope_rows
          (appends empty_db
             [Turn (js ''a'') 1 (js ''q1'') (js ''User'') (js ''now''),
              Turn (js ''a'') 1 (js ''a1'') (js ''AI'') (js ''now''),
              Turn (js ''b'') 2 (js ''q3'') (js ''User'') (js ''now'')]) 1 (js ''a''))
     = [1, 2]"
proof -
  have z: "count_messages empty_db 1 = 0"
    by (simp add: count_messages_def empty_db_def)
  have a: "list_all (\<lambda>t. turn_conv t = js ''a'')
             (filter (\<lambda>t. turn_user t = 1)
                [Turn (js ''a'') 1 (js ''q1'') (js ''User'') (js ''now''),
                 Turn (js ''a'') 1 (js ''a1'') (js ''AI'') (js ''now''),
                 Turn (js ''b'') 2 (js ''q3'') (js ''User'') (js ''now'')])"
    by simp
  have u: "[1 ..< Suc (Suc (Suc 0))] = [1, 2]"
    by (simp add: upt_conv_Cons)
  from indices_count_rows_of_user
         [of empty_db "js ''a''" 1 "[]" "[]" "[]"
             "[Turn (js ''a'') 1 (js ''q1'') (js ''User'') (js ''now''),
               Turn (js ''b'') 1 (js ''q2'') (js ''User'') (js ''now''),
               Turn (js ''a'') 2 (js ''q3'') (js ''User'') (js ''now'')]"]
       indices_count_rows_of_user
         [of empty_db "js ''a''" 1 "[]" "[]" "[]"
             "[Turn (js ''a'') 1 (js ''q1'') (js ''User'') (js ''now''),
               Turn (js ''a'') 1 (js ''a1'') (js ''AI'') (js ''now''),
               Turn (js ''b'') 2 (js ''q3'') (js ''User'') (js ''now'')]"]
       z a u
  show ?thesis by simp
qed

text \<open>
  User 1 posts \<open>q1\<close> in the conversation \<open>a\<close> and then \<open>q2\<close> in the conversation
  \<open>b\<close>, both answered. The scope (1, \<open>b\<close>) is empty before the second request, and
  the two turns appended to it get the indices 3 and 4.
\<close>

theorem second_conversation_does_not_start_at_one:
  "scope_rows (snd (post_chat sentinel_env (chat_request 1 (js ''q1'') (Some (js ''a''))) empty_db))
     1 (js ''b'') = []
   \<and> map message_index
       (scope_rows
          (snd (post_chat sentinel_env (chat_request 1 (js ''q2'') (Some (js ''b'')))
                  (snd (post_chat sentinel_env (chat_request 1 (js ''q1'') (Some (js ''a'')))
                          empty_db))))
          1 (js ''b''))
     = [3, 4]"
  by (simp add: handler_eval sentinel_env_def chat_request_def js_eval)

end
